theory Spec2Isabelle
  imports Main
begin

section \<open>Python computations: results, exceptions and side effects\<close>

text \<open>
  The wrapped functions of \<^verbatim>\<open>oslash/reader.py\<close> and \<^verbatim>\<open>oslash/state.py\<close> are arbitrary
  Python callables: a call returns a value or raises, and it may change whatever mutable
  objects its closure captured. A call is therefore a function from the world before the
  call to an outcome and the world after it. The world is a type parameter \<open>'w\<close>;
  a pure function leaves it alone.

  Exceptions: \<open>TypeError\<close> is the class named by the handlers of \<^verbatim>\<open>Reader.map\<close> and
  \<^verbatim>\<open>Reader.apply\<close>; \<open>Exception s\<close> stands for any other class derived from
  \<^verbatim>\<open>Exception\<close>; \<open>BaseException s\<close> for the classes outside it
  (\<^verbatim>\<open>KeyboardInterrupt\<close>, \<^verbatim>\<open>SystemExit\<close>, \<^verbatim>\<open>GeneratorExit\<close>), which
  \<^verbatim>\<open>except Exception\<close> does not catch.
\<close>

datatype exn = TypeError | Exception string | BaseException string

primrec is_Exception :: "exn \<Rightarrow> bool" where
  "is_Exception TypeError = True"
| "is_Exception (Exception _) = True"
| "is_Exception (BaseException _) = False"

primrec is_TypeError :: "exn \<Rightarrow> bool" where
  "is_TypeError TypeError = True"
| "is_TypeError (Exception _) = False"
| "is_TypeError (BaseException _) = False"

type_synonym ('w, 'a) comp = "'w \<Rightarrow> (exn + 'a) \<times> 'w"

definition returns :: "'a \<Rightarrow> ('w, 'a) comp" where
  "returns v = (\<lambda>w. (Inr v, w))"

definition raises :: "exn \<Rightarrow> ('w, 'a) comp" where
  "raises x = (\<lambda>w. (Inl x, w))"

text \<open>Sequencing: the second step runs in the world the first one left; an exception
  skips it, and the effects made before the exception stay.\<close>

definition then_do :: "('w, 'a) comp \<Rightarrow> ('a \<Rightarrow> ('w, 'b) comp) \<Rightarrow> ('w, 'b) comp" where
  "then_do c k = (\<lambda>w. case c w of
       (Inl x, w') \<Rightarrow> (Inl x, w')
     | (Inr v, w') \<Rightarrow> k v w')"

text \<open>\<^verbatim>\<open>try: body / except C: handler\<close>, where \<open>handles\<close> decides membership in \<^verbatim>\<open>C\<close>.
  The handler runs in the world the failed body left.\<close>

definition try_except ::
  "(exn \<Rightarrow> bool) \<Rightarrow> ('w, 'a) comp \<Rightarrow> ('w, 'a) comp \<Rightarrow> ('w, 'a) comp" where
  "try_except handles body handler = (\<lambda>w. case body w of
       (Inl x, w') \<Rightarrow> (if handles x then handler w' else (Inl x, w'))
     | (Inr v, w') \<Rightarrow> (Inr v, w'))"

section \<open>Reader (\<^verbatim>\<open>oslash/reader.py\<close>)\<close>

text \<open>\<^verbatim>\<open>self.fn\<close>: a callable of one parameter, the environment.\<close>

datatype ('w, 'e, 'a) Reader = Reader (fn: "'e \<Rightarrow> ('w, 'a) comp")

text \<open>Calling a one-parameter function with \<^verbatim>\<open>*args\<close>: any other number of positional
  arguments is Python's \<^verbatim>\<open>TypeError\<close>.\<close>

definition invoke :: "('e \<Rightarrow> ('w, 'a) comp) \<Rightarrow> 'e list \<Rightarrow> ('w, 'a) comp" where
  "invoke f args = (case args of [x] \<Rightarrow> f x | _ \<Rightarrow> raises TypeError)"

text \<open>What \<^verbatim>\<open>__call__\<close> hands back is, dynamically, either the wrapped function or the
  result of calling it.\<close>

datatype ('f, 'a) called = Wrapped 'f | Result 'a

text \<open>\<^verbatim>\<open>return self.fn(*args, **kwargs) if args or kwargs else self.fn\<close>
  (positional arguments only).\<close>

definition Reader_call ::
  "('w, 'e, 'a) Reader \<Rightarrow> 'e list \<Rightarrow> ('w, ('e \<Rightarrow> ('w, 'a) comp, 'a) called) comp" where
  "Reader_call self args =
     (if args \<noteq> [] then then_do (invoke (fn self) args) (\<lambda>v. returns (Result v))
      else returns (Wrapped (fn self)))"

text \<open>\<^verbatim>\<open>return self(*args, **kwargs)\<close>\<close>

definition Reader_run ::
  "('w, 'e, 'a) Reader \<Rightarrow> 'e list \<Rightarrow> ('w, ('e \<Rightarrow> ('w, 'a) comp, 'a) called) comp" where
  "Reader_run self args = Reader_call self args"

text \<open>\<^verbatim>\<open>unit\<close>: \<^verbatim>\<open>return cls(lambda _: value)\<close>; \<^verbatim>\<open>pure\<close>: \<^verbatim>\<open>return cls.unit(fn)\<close>.\<close>

definition Reader_unit :: "'a \<Rightarrow> ('w, 'e, 'a) Reader" where
  "Reader_unit v = Reader (\<lambda>_. returns v)"

definition Reader_pure :: "'a \<Rightarrow> ('w, 'e, 'a) Reader" where
  "Reader_pure f = Reader_unit f"

text \<open>
  The local variable \<^verbatim>\<open>ret\<close> of \<^verbatim>\<open>_compose\<close>: what the mapped function returned, or
  the object \<^verbatim>\<open>functools.partial(f, v)\<close>, which stores the function and its first argument.
\<close>

datatype ('w, 'a, 'b) ret = Returned 'b | Partial "'a \<Rightarrow> ('w, 'b) comp" 'a

text \<open>
  \<^verbatim>\<open>map\<close>. Inside \<^verbatim>\<open>_compose\<close>, \<^verbatim>\<open>self(x)\<close> has one positional argument, so
  \<^verbatim>\<open>__call__\<close> takes its first branch and it is \<^verbatim>\<open>self.fn(x)\<close> (lemma
  \<open>Reader_call_one\<close> below). The \<^verbatim>\<open>try\<close> body is the whole expression
  \<^verbatim>\<open>fn(self(x))\<close>: first the argument \<^verbatim>\<open>self(x)\<close>, then the call. The handler evaluates
  \<^verbatim>\<open>self(x)\<close> again. The parameter \<^verbatim>\<open>fn\<close> of the source is \<open>f\<close> here.
\<close>

definition Reader_map ::
  "('w, 'e, 'a) Reader \<Rightarrow> ('a \<Rightarrow> ('w, 'b) comp) \<Rightarrow> ('w, 'e, ('w, 'a, 'b) ret) Reader" where
  "Reader_map self f = Reader (\<lambda>x.
     try_except is_TypeError
       (then_do (fn self x) (\<lambda>v. then_do (f v) (\<lambda>b. returns (Returned b))))
       (then_do (fn self x) (\<lambda>v. returns (Partial f v))))"

text \<open>\<^verbatim>\<open>bind\<close>: \<^verbatim>\<open>Reader(lambda x: fn(self(x))(x))\<close>. The value \<^verbatim>\<open>fn\<close> returns is a
  Reader, called with one argument.\<close>

definition Reader_bind ::
  "('w, 'e, 'a) Reader \<Rightarrow> ('a \<Rightarrow> ('w, ('w, 'e, 'b) Reader) comp) \<Rightarrow> ('w, 'e, 'b) Reader" where
  "Reader_bind self k = Reader (\<lambda>x.
     then_do (fn self x) (\<lambda>v. then_do (k v) (\<lambda>m. fn m x)))"

text \<open>
  \<^verbatim>\<open>apply\<close>. \<^verbatim>\<open>g = something.run()\<close> is taken when \<^verbatim>\<open>apply\<close> is called: no argument,
  so it is the wrapped function of \<^verbatim>\<open>something\<close>. In \<^verbatim>\<open>_compose\<close>,
  \<^verbatim>\<open>f = self(x)\<close> stands before the \<^verbatim>\<open>try\<close>; the body \<^verbatim>\<open>f(g(x))\<close> evaluates
  \<^verbatim>\<open>g(x)\<close> and then calls \<^verbatim>\<open>f\<close>; the handler evaluates \<^verbatim>\<open>g(x)\<close> again.
\<close>

definition Reader_apply ::
  "('w, 'e, 'a \<Rightarrow> ('w, 'b) comp) Reader \<Rightarrow> ('w, 'e, 'a) Reader
     \<Rightarrow> ('w, 'e, ('w, 'a, 'b) ret) Reader" where
  "Reader_apply self something = (let g = fn something in Reader (\<lambda>x.
     then_do (fn self x) (\<lambda>f.
       try_except is_TypeError
         (then_do (g x) (\<lambda>a. then_do (f a) (\<lambda>b. returns (Returned b))))
         (then_do (g x) (\<lambda>a. returns (Partial f a))))))"

text \<open>
  Python's \<^verbatim>\<open>==\<close> on the two probe results is decided by the classes of the results, which
  this module does not know: on functions and \<^verbatim>\<open>functools.partial\<close> objects it is
  identity, on floats \<^verbatim>\<open>nan\<close> differs from itself, a user class defines its own, and it
  may raise. The comparison is therefore a parameter \<open>eqv\<close> of the model: any computation
  from the left and the right operand to a truth value.

  The method \<^verbatim>\<open>__eq__(self, other)\<close>: \<^verbatim>\<open>self(environment) == other(environment)\<close> with
  \<^verbatim>\<open>environment = 42\<close>, inside \<^verbatim>\<open>try ... except Exception: equal = False\<close>. The
  \<^verbatim>\<open>try\<close> body calls \<^verbatim>\<open>self\<close>, then \<^verbatim>\<open>other\<close>, then compares.
\<close>

definition Reader_eq ::
  "('a \<Rightarrow> 'a \<Rightarrow> ('w, bool) comp) \<Rightarrow> ('w, int, 'a) Reader \<Rightarrow> ('w, int, 'a) Reader
     \<Rightarrow> ('w, bool) comp" where
  "Reader_eq eqv self other = (let environment = 42 in
     try_except is_Exception
       (then_do (fn self environment) (\<lambda>a.
          then_do (fn other environment) (\<lambda>b. eqv a b)))
       (returns False))"

text \<open>
  The expression \<^verbatim>\<open>l == r\<close> on two Readers. Python tries the method of the right operand
  first, with the operands swapped, exactly when the class of \<open>r\<close> is a proper subclass
  of the class of \<open>l\<close> (as in \<^verbatim>\<open>Reader(f) == MonadReader(g)\<close>, by
  \<^verbatim>\<open>class MonadReader(Reader)\<close>); otherwise it tries the method of the left operand.
  \<^verbatim>\<open>Reader.__eq__\<close> never returns \<^verbatim>\<open>NotImplemented\<close>, so the method tried first
  decides. \<open>right_subclass\<close> says whether the class of \<open>r\<close> is a proper subclass
  of the class of \<open>l\<close>.
\<close>

definition Reader_eq_operator ::
  "('a \<Rightarrow> 'a \<Rightarrow> ('w, bool) comp) \<Rightarrow> bool \<Rightarrow> ('w, int, 'a) Reader \<Rightarrow> ('w, int, 'a) Reader
     \<Rightarrow> ('w, bool) comp" where
  "Reader_eq_operator eqv right_subclass l r =
     (if right_subclass then Reader_eq eqv r l else Reader_eq eqv l r)"

subsection \<open>MonadReader\<close>

text \<open>\<^verbatim>\<open>ask\<close>: \<^verbatim>\<open>cls(lambda x: x)\<close>.\<close>

definition MonadReader_ask :: "('w, 'e, 'e) Reader" where
  "MonadReader_ask = Reader (\<lambda>x. returns x)"

text \<open>\<^verbatim>\<open>asks\<close>: \<^verbatim>\<open>cls.ask().bind(Reader(lambda e: cls.unit(func(e))))\<close>. The function
  given to \<^verbatim>\<open>bind\<close> is itself a Reader object; \<^verbatim>\<open>bind\<close> calls it with one argument,
  which calls its wrapped function.\<close>

definition MonadReader_asks :: "('e \<Rightarrow> ('w, 'a) comp) \<Rightarrow> ('w, 'e, 'a) Reader" where
  "MonadReader_asks func = Reader_bind MonadReader_ask
     (fn (Reader (\<lambda>e. then_do (func e) (\<lambda>v. returns (Reader_unit v)))))"

text \<open>\<^verbatim>\<open>local\<close>: \<^verbatim>\<open>Reader(lambda e: self.run(func(e)))\<close>.\<close>

definition MonadReader_local ::
  "('w, 'e, 'a) Reader \<Rightarrow> ('d \<Rightarrow> ('w, 'e) comp) \<Rightarrow> ('w, 'd, 'a) Reader" where
  "MonadReader_local self func = Reader (\<lambda>e. then_do (func e) (\<lambda>e'. fn self e'))"

section \<open>State (\<^verbatim>\<open>oslash/state.py\<close>)\<close>

text \<open>Modelled from the spec: the module \<^verbatim>\<open>oslash/util.py\<close>, from which \<^verbatim>\<open>state.py\<close>
  imports \<^verbatim>\<open>Unit\<close>, is not among the sources; the spec calls it the sentinel "no
  meaningful value" marker that \<^verbatim>\<open>put\<close> returns as its result. It is a value of its
  own, equal only to itself.\<close>

datatype no_value = Unit

text \<open>\<^verbatim>\<open>self._value\<close>: a callable from the state to a pair (result, next state).\<close>

datatype ('w, 's, 'a) State = State (wrapped: "'s \<Rightarrow> ('w, 'a \<times> 's) comp")

definition State_run :: "('w, 's, 'a) State \<Rightarrow> 's \<Rightarrow> ('w, 'a \<times> 's) comp" where
  "State_run self state = wrapped self state"



text \<open>\<^verbatim>\<open>map\<close>: \<^verbatim>\<open>State(lambda state: _(*self.run(state)))\<close> with
  \<^verbatim>\<open>_(a, state) = (mapper(a), state)\<close>.\<close>

definition State_map ::
  "('w, 's, 'a) State \<Rightarrow> ('a \<Rightarrow> ('w, 'b) comp) \<Rightarrow> ('w, 's, 'b) State" where
  "State_map self mapper = State (\<lambda>state.
     then_do (State_run self state) (\<lambda>(a, state').
       then_do (mapper a) (\<lambda>b. returns (b, state'))))"

text \<open>\<^verbatim>\<open>bind\<close>: \<^verbatim>\<open>State(lambda state: _(*self.run(state)))\<close> with
  \<^verbatim>\<open>_(result, state) = fn(result).run(state)\<close>. The parameter \<^verbatim>\<open>fn\<close> is \<open>k\<close> here.\<close>

definition State_bind ::
  "('w, 's, 'a) State \<Rightarrow> ('a \<Rightarrow> ('w, ('w, 's, 'b) State) comp) \<Rightarrow> ('w, 's, 'b) State" where
  "State_bind self k = State (\<lambda>state.
     then_do (State_run self state) (\<lambda>(result, state').
       then_do (k result) (\<lambda>m. State_run m state')))"

definition State_get :: "('w, 's, 's) State" where
  "State_get = State (\<lambda>state. returns (state, state))"

definition State_put :: "'s \<Rightarrow> ('w, 's, no_value) State" where
  "State_put new_state = State (\<lambda>state. returns (Unit, new_state))"



section \<open>Counting invocations\<close>

text \<open>
  To count how often a wrapped function is invoked, the world is paired with a counter:
  \<open>counted f\<close> behaves as \<open>f\<close> on the world and adds one to the counter at every
  call; \<open>uncounted c\<close> runs \<open>c\<close> on the world and leaves the counter alone.
\<close>

definition counted :: "('e \<Rightarrow> ('w, 'a) comp) \<Rightarrow> 'e \<Rightarrow> (nat \<times> 'w, 'a) comp" where
  "counted f x = (\<lambda>(n, w). case f x w of (r, w') \<Rightarrow> (r, (Suc n, w')))"

definition uncounted :: "('w, 'a) comp \<Rightarrow> (nat \<times> 'w, 'a) comp" where
  "uncounted c = (\<lambda>(n, w). case c w of (r, w') \<Rightarrow> (r, (n, w')))"

definition uncounted_Reader :: "('w, 'e, 'a) Reader \<Rightarrow> (nat \<times> 'w, 'e, 'a) Reader" where
  "uncounted_Reader m = Reader (\<lambda>x. uncounted (fn m x))"

section \<open>Basic facts about computations\<close>

lemma returns_apply: "returns v w = (Inr v, w)"
  by (simp add: returns_def)

lemma raises_apply: "raises x w = (Inl x, w)"
  by (simp add: raises_def)

lemma then_do_returns [simp]: "then_do (returns v) k = k v"
  by (simp add: then_do_def returns_def)

lemma then_do_Pair_Inr [simp]: "then_do (Pair (Inr v)) k = k v"
  by (simp add: then_do_def)

lemma then_do_raises [simp]: "then_do (raises x) k = raises x"
  by (simp add: then_do_def raises_def)

lemma then_do_assoc:
  "then_do (then_do c k) h = then_do c (\<lambda>v. then_do (k v) h)"
  by (auto simp: then_do_def fun_eq_iff split: prod.splits sum.splits)

lemma then_do_Inr: "c w = (Inr v, w') \<Longrightarrow> then_do c k w = k v w'"
  by (simp add: then_do_def)

lemma then_do_Inl: "c w = (Inl x, w') \<Longrightarrow> then_do c k w = (Inl x, w')"
  by (simp add: then_do_def)

lemma is_TypeError_iff: "is_TypeError e \<longleftrightarrow> e = TypeError"
  by (cases e) simp_all

lemma counted_apply: "counted f x (n, w) = (fst (f x w), (Suc n, snd (f x w)))"
  by (simp add: counted_def split: prod.splits)

lemma uncounted_apply: "uncounted c (n, w) = (fst (c w), (n, snd (c w)))"
  by (simp add: uncounted_def split: prod.splits)

section \<open>Calling and running a Reader\<close>

text \<open>The two branches of \<^verbatim>\<open>__call__\<close>: \<^verbatim>\<open>self(x)\<close> is \<^verbatim>\<open>self.fn(x)\<close>, and
  \<^verbatim>\<open>self()\<close> is \<^verbatim>\<open>self.fn\<close>. The combinators above use the first for \<^verbatim>\<open>self(x)\<close>
  and the second for \<^verbatim>\<open>something.run()\<close>.\<close>

lemma Reader_call_one: "Reader_call self [x] = then_do (fn self x) (\<lambda>v. returns (Result v))"
  by (simp add: Reader_call_def invoke_def)

lemma Reader_call_none: "Reader_call self [] = returns (Wrapped (fn self))"
  by (simp add: Reader_call_def)

lemma Reader_run_one_apply:
  "Reader_run r [x] w =
     (case fn r x w of (Inl e, w') \<Rightarrow> (Inl e, w') | (Inr v, w') \<Rightarrow> (Inr (Result v), w'))"
  by (simp add: Reader_run_def Reader_call_one then_do_def returns_apply
      split: prod.splits sum.splits)

lemma fn_Reader_map:
  "fn (Reader_map self f) x = try_except is_TypeError
       (then_do (fn self x) (\<lambda>v. then_do (f v) (\<lambda>b. returns (Returned b))))
       (then_do (fn self x) (\<lambda>v. returns (Partial f v)))"
  by (simp add: Reader_map_def)

lemma fn_Reader_apply:
  "fn (Reader_apply self something) x = then_do (fn self x) (\<lambda>f.
       try_except is_TypeError
         (then_do (fn something x) (\<lambda>a. then_do (f a) (\<lambda>b. returns (Returned b))))
         (then_do (fn something x) (\<lambda>a. returns (Partial f a))))"
  by (simp add: Reader_apply_def Let_def)

text \<open>
  C5. \<^verbatim>\<open>r.run()\<close> with no arguments returns the wrapped function itself, unchanged and
  without calling it; \<^verbatim>\<open>r.run(e)\<close> returns what the wrapped function returns on \<open>e\<close>,
  raises what it raises, and leaves the world it leaves.
\<close>

theorem Reader_run_noargs_and_arg:
  "Reader_run r [] w = (Inr (Wrapped (fn r)), w)
   \<and> Reader_run r [e] = then_do (fn r e) (\<lambda>v. returns (Result v))"
  by (simp add: Reader_run_def Reader_call_def invoke_def returns_apply)

text \<open>
  C4, as the spec states it, fails: \<^verbatim>\<open>Reader.pure(lambda x: x + 1).map(lambda f: f(10)).run()\<close>
  is called with no argument, so it hands back the wrapped function \<^verbatim>\<open>_compose\<close> that
  \<^verbatim>\<open>map\<close> built, which is not the number 11.
\<close>

theorem pure_map_run_noargs_counterexample:
  "Reader_run (Reader_map (Reader_pure (\<lambda>x. returns (x + (1::int)))) (\<lambda>f. f 10)) ([]::int list) ()
     \<noteq> (Inr (Result (Returned (11::int))), ())"
  by (simp add: Reader_run_def Reader_call_none returns_apply)

text \<open>
  C4, amended. With no argument, \<^verbatim>\<open>run()\<close> on
  \<^verbatim>\<open>Reader.pure(lambda x: x + 1).map(lambda f: f(10))\<close> returns the wrapped function of the
  mapped Reader; run on any environment \<open>e\<close>, \<^verbatim>\<open>run(e)\<close>, it evaluates to 11 and
  changes nothing.
\<close>

theorem pure_map_run:
  "Reader_run (Reader_map (Reader_pure (\<lambda>x. returns (x + (1::int)))) (\<lambda>f. f 10)) [] w
     = (Inr (Wrapped (fn (Reader_map (Reader_pure (\<lambda>x. returns (x + 1))) (\<lambda>f. f 10)))), w)
   \<and> Reader_run (Reader_map (Reader_pure (\<lambda>x. returns (x + (1::int)))) (\<lambda>f. f 10)) [e] w
     = (Inr (Result (Returned 11)), w)"
  by (simp add: Reader_run_def Reader_call_one Reader_call_none Reader_map_def Reader_pure_def
      Reader_unit_def try_except_def returns_apply)

text \<open>
  C9. \<^verbatim>\<open>MonadReader.ask().run(e0)\<close> returns \<open>e0\<close>, and
  \<^verbatim>\<open>MonadReader.asks(f).run(e0)\<close> is \<^verbatim>\<open>f(e0)\<close>: the same result, the same exception if
  \<open>f\<close> raises, the same effects.
\<close>

theorem ask_asks_run:
  "Reader_run MonadReader_ask [e0] w = (Inr (Result e0), w)
   \<and> Reader_run (MonadReader_asks f) [e0] = then_do (f e0) (\<lambda>v. returns (Result v))"
proof
  show "Reader_run MonadReader_ask [e0] w = (Inr (Result e0), w)"
    by (simp add: Reader_run_def Reader_call_one MonadReader_ask_def returns_apply)
next
  show "Reader_run (MonadReader_asks f) [e0] = then_do (f e0) (\<lambda>v. returns (Result v))"
    by (simp add: Reader_run_def Reader_call_one MonadReader_ask_def MonadReader_asks_def
        Reader_bind_def Reader_unit_def then_do_assoc)
qed

section \<open>Sequencing with bind\<close>

text \<open>
  C6. Bind is associative on every input: run on a common environment \<open>e0\<close>,
  \<^verbatim>\<open>m.bind(f).bind(g)\<close> and \<^verbatim>\<open>m.bind(lambda x: f(x).bind(g))\<close> are the same computation
  (same result or exception, same effects in the same order), and likewise for State on a
  common initial state \<open>s0\<close>.
\<close>

theorem bind_assoc_run:
  "Reader_run (Reader_bind (Reader_bind m f) g) [e0]
     = Reader_run (Reader_bind m (\<lambda>x. then_do (f x) (\<lambda>r. returns (Reader_bind r g)))) [e0]
   \<and> State_run (State_bind (State_bind ms fs) gs) s0
     = State_run (State_bind ms (\<lambda>x. then_do (fs x) (\<lambda>r. returns (State_bind r gs)))) s0"
  by (simp add: Reader_run_def Reader_call_one Reader_bind_def State_run_def State_bind_def
      then_do_assoc split_def)

text \<open>
  C7. If \<^verbatim>\<open>m.run(s)\<close> returns the pair \<open>(a, s2)\<close>, then \<^verbatim>\<open>m.bind(f).run(s)\<close> is
  \<^verbatim>\<open>f(a).run(s2)\<close>; in particular
  \<^verbatim>\<open>State(lambda s: (1, s+1)).bind(lambda a: State(lambda s: (a+1, s*2))).run(5)\<close> is
  \<open>(2, 12)\<close>.
\<close>

theorem State_bind_threads:
  "(State_run m s w = (Inr (a, s2), w') \<longrightarrow>
      State_run (State_bind m k) s w = then_do (k a) (\<lambda>n. State_run n s2) w')
   \<and> State_run (State_bind (State (\<lambda>s. returns (1, s + 1)))
                  (\<lambda>a. returns (State (\<lambda>s. returns (a + 1, s * 2))))) (5::int) w
       = (Inr (2::int, 12), w)"
  by (simp add: State_run_def State_bind_def then_do_Inr returns_apply)

text \<open>The same two computations started in state 3: the first step returns \<open>(1, 4)\<close>,
  so the bound computation returns \<open>(2, 8)\<close>.\<close>

theorem State_bind_threads_witness:
  "State_run (State_bind (State (\<lambda>s. returns (1::int, s + 1)))
                (\<lambda>a. returns (State (\<lambda>s. returns (a + 1, s * 2))))) (3::int) ()
       = (Inr (2::int, 8), ())"
  using State_bind_threads [of "State (\<lambda>s. returns (1::int, s + 1))" "3::int" "()" "1::int" "4::int" "()"
      "\<lambda>a. returns (State (\<lambda>s. returns (a + 1, s * 2)))"]
  by (simp add: State_run_def returns_apply)

text \<open>
  C8. For every initial state \<open>s0\<close>,
  \<^verbatim>\<open>State.get().bind(lambda s: State.put(s)).run(s0)\<close> returns \<^verbatim>\<open>(Unit, s0)\<close>.
\<close>

theorem get_put_round_trip:
  "State_run (State_bind State_get (\<lambda>s. returns (State_put s))) s0 w = (Inr (Unit, s0), w)"
  by (simp add: State_run_def State_bind_def State_get_def State_put_def returns_apply)

section \<open>The partial-application fallback of map and apply\<close>

lemma map_partial_only_if:
  assumes "Reader_run (Reader_map r f) [x] w = (Inr (Result (Partial f' v)), wc)"
  shows "\<exists>wb. then_do (fn r x) f w = (Inl TypeError, wb) \<and> fn r x wb = (Inr v, wc) \<and> f' = f"
  using assms
  by (auto simp: Reader_run_one_apply fn_Reader_map try_except_def then_do_def returns_apply
      is_TypeError_iff split: prod.splits sum.splits if_splits)

lemma map_other_exception:
  assumes "then_do (fn r x) f w = (Inl e, wb)" and "e \<noteq> TypeError"
  shows "Reader_run (Reader_map r f) [x] w = (Inl e, wb)"
  using assms
  by (auto simp: Reader_run_one_apply fn_Reader_map try_except_def then_do_def returns_apply
      is_TypeError_iff split: prod.splits sum.splits if_splits)

lemma map_TypeError_twice:
  assumes "fn r x w = (Inl TypeError, wb)" and "fn r x wb = (Inl TypeError, wc)"
  shows "Reader_run (Reader_map r f) [x] w = (Inl TypeError, wc)"
  using assms
  by (simp add: Reader_run_one_apply fn_Reader_map try_except_def then_do_def)

lemma apply_self_raises:
  assumes "fn s x w = (Inl e, wb)"
  shows "Reader_run (Reader_apply s other) [x] w = (Inl e, wb)"
  using assms
  by (simp add: Reader_run_one_apply fn_Reader_apply then_do_def)

lemma apply_partial_only_if:
  assumes "fn s x w = (Inr h, wa)"
    and "Reader_run (Reader_apply s other) [x] w = (Inr (Result (Partial h' a)), wc)"
  shows "\<exists>wb. then_do (fn other x) h wa = (Inl TypeError, wb) \<and> fn other x wb = (Inr a, wc) \<and> h' = h"
  using assms
  by (auto simp: Reader_run_one_apply fn_Reader_apply try_except_def then_do_def returns_apply
      is_TypeError_iff split: prod.splits sum.splits if_splits)

lemma apply_other_exception:
  assumes "fn s x w = (Inr h, wa)" and "then_do (fn other x) h wa = (Inl e, wb)" and "e \<noteq> TypeError"
  shows "Reader_run (Reader_apply s other) [x] w = (Inl e, wb)"
  using assms
  by (auto simp: Reader_run_one_apply fn_Reader_apply try_except_def then_do_def returns_apply
      is_TypeError_iff split: prod.splits sum.splits if_splits)

lemma apply_TypeError_twice:
  assumes "fn s x w = (Inr h, wa)" and "fn other x wa = (Inl TypeError, wb)"
    and "fn other x wb = (Inl TypeError, wc)"
  shows "Reader_run (Reader_apply s other) [x] w = (Inl TypeError, wc)"
  using assms
  by (simp add: Reader_run_one_apply fn_Reader_apply try_except_def then_do_def)

text \<open>
  C1, as the spec states it, fails. The \<^verbatim>\<open>try\<close> of \<^verbatim>\<open>map\<close> encloses the call of
  \<open>r\<close>'s own wrapped function, and the handler calls it again. Take a wrapped function
  that raises \<^verbatim>\<open>TypeError\<close> on its first call and returns its argument afterwards (the
  world counts its calls), mapped with the one-parameter identity, whose application
  never raises: the \<^verbatim>\<open>TypeError\<close> raised inside \<open>r\<close>'s wrapped function is swallowed
  and \<^verbatim>\<open>run(7)\<close> returns \<^verbatim>\<open>partial(f, 7)\<close>.
\<close>

theorem flaky_TypeError_swallowed_counterexample:
  "Reader_run (Reader_map (Reader (\<lambda>x w. if w = (0::nat) then (Inl TypeError, 1) else (Inr x, w)))
       returns) [7::int] 0
     = (Inr (Result (Partial returns 7)), 1)"
  by (simp add: Reader_run_one_apply fn_Reader_map try_except_def then_do_def returns_apply)

text \<open>
  C1, amended. In \<^verbatim>\<open>r.map(f)\<close> the \<^verbatim>\<open>try\<close> body is the whole expression
  \<^verbatim>\<open>f(r(x))\<close>. (1) The run returns \<^verbatim>\<open>partial(f, v)\<close> only when that body raised
  \<^verbatim>\<open>TypeError\<close> and the handler's second call of \<open>r\<close>'s wrapped function returned
  \<open>v\<close>. (2) An exception of the body other than \<^verbatim>\<open>TypeError\<close> propagates.
  (3) A \<^verbatim>\<open>TypeError\<close> raised by \<open>r\<close>'s wrapped function propagates when the wrapped
  function raises it again on the handler's second call, as every deterministic function
  does. In \<^verbatim>\<open>s.apply(other)\<close>: (4) \<open>s\<close>'s wrapped function is called before the
  \<^verbatim>\<open>try\<close>, so whatever it raises propagates; (5)-(7) the body is \<^verbatim>\<open>h(other(x))\<close>
  for the function \<open>h\<close> that \<open>s\<close> produced, and (1)-(3) hold for it with
  \<open>other\<close>'s wrapped function in the place of \<open>r\<close>'s.
\<close>

theorem fallback_scope:
  "(Reader_run (Reader_map r f) [x] w = (Inr (Result (Partial f' v)), wc) \<longrightarrow>
      (\<exists>wb. then_do (fn r x) f w = (Inl TypeError, wb) \<and> fn r x wb = (Inr v, wc) \<and> f' = f))
   \<and> (then_do (fn r x) f w = (Inl e, wb) \<and> e \<noteq> TypeError \<longrightarrow>
      Reader_run (Reader_map r f) [x] w = (Inl e, wb))
   \<and> (fn r x w = (Inl TypeError, wb) \<and> fn r x wb = (Inl TypeError, wc) \<longrightarrow>
      Reader_run (Reader_map r f) [x] w = (Inl TypeError, wc))
   \<and> (fn s x w = (Inl e, wb) \<longrightarrow> Reader_run (Reader_apply s other) [x] w = (Inl e, wb))
   \<and> (fn s x w = (Inr h, wa)
        \<and> Reader_run (Reader_apply s other) [x] w = (Inr (Result (Partial h' a)), wc) \<longrightarrow>
      (\<exists>wb. then_do (fn other x) h wa = (Inl TypeError, wb) \<and> fn other x wb = (Inr a, wc) \<and> h' = h))
   \<and> (fn s x w = (Inr h, wa) \<and> then_do (fn other x) h wa = (Inl e, wb) \<and> e \<noteq> TypeError \<longrightarrow>
      Reader_run (Reader_apply s other) [x] w = (Inl e, wb))
   \<and> (fn s x w = (Inr h, wa) \<and> fn other x wa = (Inl TypeError, wb)
        \<and> fn other x wb = (Inl TypeError, wc) \<longrightarrow>
      Reader_run (Reader_apply s other) [x] w = (Inl TypeError, wc))"
proof (intro conjI impI)
  assume "Reader_run (Reader_map r f) [x] w = (Inr (Result (Partial f' v)), wc)"
  then show "\<exists>wb. then_do (fn r x) f w = (Inl TypeError, wb) \<and> fn r x wb = (Inr v, wc) \<and> f' = f"
    by (rule map_partial_only_if)
next
  assume "then_do (fn r x) f w = (Inl e, wb) \<and> e \<noteq> TypeError"
  then show "Reader_run (Reader_map r f) [x] w = (Inl e, wb)"
    by (simp add: map_other_exception)
next
  assume "fn r x w = (Inl TypeError, wb) \<and> fn r x wb = (Inl TypeError, wc)"
  then show "Reader_run (Reader_map r f) [x] w = (Inl TypeError, wc)"
    by (simp add: map_TypeError_twice)
next
  assume "fn s x w = (Inl e, wb)"
  then show "Reader_run (Reader_apply s other) [x] w = (Inl e, wb)"
    by (rule apply_self_raises)
next
  assume "fn s x w = (Inr h, wa)
        \<and> Reader_run (Reader_apply s other) [x] w = (Inr (Result (Partial h' a)), wc)"
  then have "fn s x w = (Inr h, wa)"
    and "Reader_run (Reader_apply s other) [x] w = (Inr (Result (Partial h' a)), wc)"
    by simp_all
  then show "\<exists>wb. then_do (fn other x) h wa = (Inl TypeError, wb) \<and> fn other x wb = (Inr a, wc) \<and> h' = h"
    by (rule apply_partial_only_if)
next
  assume "fn s x w = (Inr h, wa) \<and> then_do (fn other x) h wa = (Inl e, wb) \<and> e \<noteq> TypeError"
  then show "Reader_run (Reader_apply s other) [x] w = (Inl e, wb)"
    by (simp add: apply_other_exception)
next
  assume "fn s x w = (Inr h, wa) \<and> fn other x wa = (Inl TypeError, wb)
        \<and> fn other x wb = (Inl TypeError, wc)"
  then show "Reader_run (Reader_apply s other) [x] w = (Inl TypeError, wc)"
    by (simp add: apply_TypeError_twice)
qed

text \<open>One instance for each of the seven parts, on the environment 7 with a call
  counter as the world: a mapped function that raises \<^verbatim>\<open>TypeError\<close> (too few
  arguments), one that raises another exception, and a wrapped function that always raises
  \<^verbatim>\<open>TypeError\<close>.\<close>

theorem fallback_scope_witness:
  "(\<exists>wb. then_do (fn (Reader returns) (7::int)) (\<lambda>v. raises TypeError :: (nat, int) comp) 0 = (Inl TypeError, wb)
        \<and> fn (Reader returns) 7 wb = (Inr 7, 0))
   \<and> Reader_run (Reader_map (Reader returns) (\<lambda>v. raises (Exception ''boom'') :: (nat, int) comp)) [7::int] 0
       = (Inl (Exception ''boom''), 0)
   \<and> Reader_run (Reader_map (Reader (\<lambda>e. raises TypeError) :: (nat, int, int) Reader)
         (returns :: int \<Rightarrow> (nat, int) comp)) [7] 0 = (Inl TypeError, 0)
   \<and> Reader_run (Reader_apply (Reader (\<lambda>e. raises TypeError) :: (nat, int, int \<Rightarrow> (nat, int) comp) Reader)
         (Reader returns)) [7] 0 = (Inl TypeError, 0)
   \<and> (\<exists>wb. then_do (fn (Reader returns) (7::int)) (\<lambda>a. raises TypeError :: (nat, int) comp) 0 = (Inl TypeError, wb)
        \<and> fn (Reader returns) 7 wb = (Inr 7, 0))
   \<and> Reader_run (Reader_apply (Reader (\<lambda>e. returns (\<lambda>a. raises (Exception ''boom'') :: (nat, int) comp)))
         (Reader returns)) [7::int] 0 = (Inl (Exception ''boom''), 0)
   \<and> Reader_run (Reader_apply (Reader (\<lambda>e. returns (returns :: int \<Rightarrow> (nat, int) comp)))
         (Reader (\<lambda>e. raises TypeError))) [7::int] 0 = (Inl TypeError, 0)"
proof (intro conjI)
  show "\<exists>wb. then_do (fn (Reader returns) (7::int)) (\<lambda>v. raises TypeError :: (nat, int) comp) 0 = (Inl TypeError, wb)
        \<and> fn (Reader returns) 7 wb = (Inr 7, 0)"
    using fallback_scope [where r = "Reader returns" and f = "\<lambda>v. raises TypeError :: (nat, int) comp" and x = "7::int"
          and w = 0 and f' = "\<lambda>v. raises TypeError :: (nat, int) comp" and v = 7 and wc = 0,
        THEN conjunct1]
    by (simp add: Reader_run_one_apply fn_Reader_map try_except_def then_do_def returns_apply raises_apply)
next
  show "Reader_run (Reader_map (Reader returns) (\<lambda>v. raises (Exception ''boom'') :: (nat, int) comp)) [7::int] 0
       = (Inl (Exception ''boom''), 0)"
    using fallback_scope [where r = "Reader returns" and f = "\<lambda>v. raises (Exception ''boom'') :: (nat, int) comp"
          and x = "7::int" and w = 0 and e = "Exception ''boom''" and wb = 0,
        THEN conjunct2, THEN conjunct1]
    by (simp add: then_do_def returns_apply raises_apply)
next
  show "Reader_run (Reader_map (Reader (\<lambda>e. raises TypeError) :: (nat, int, int) Reader)
         (returns :: int \<Rightarrow> (nat, int) comp)) [7] 0 = (Inl TypeError, 0)"
    using fallback_scope [where r = "Reader (\<lambda>e. raises TypeError) :: (nat, int, int) Reader" and x = 7 and w = 0
          and wb = 0 and wc = 0 and f = "returns :: int \<Rightarrow> (nat, int) comp",
        THEN conjunct2, THEN conjunct2, THEN conjunct1]
    by (simp add: raises_apply)
next
  show "Reader_run (Reader_apply (Reader (\<lambda>e. raises TypeError) :: (nat, int, int \<Rightarrow> (nat, int) comp) Reader)
         (Reader returns)) [7] 0 = (Inl TypeError, 0)"
    using fallback_scope [where s = "Reader (\<lambda>e. raises TypeError) :: (nat, int, int \<Rightarrow> (nat, int) comp) Reader"
          and x = 7 and w = 0 and e = TypeError and wb = 0 and other = "Reader returns",
        THEN conjunct2, THEN conjunct2, THEN conjunct2, THEN conjunct1]
    by (simp add: raises_apply)
next
  show "\<exists>wb. then_do (fn (Reader returns) (7::int)) (\<lambda>a. raises TypeError :: (nat, int) comp) 0 = (Inl TypeError, wb)
        \<and> fn (Reader returns) 7 wb = (Inr 7, 0)"
    using fallback_scope [where s = "Reader (\<lambda>e. returns (\<lambda>a. raises TypeError :: (nat, int) comp))" and x = "7::int"
          and w = 0 and h = "\<lambda>a. raises TypeError :: (nat, int) comp" and wa = 0
          and other = "Reader returns" and h' = "\<lambda>a. raises TypeError :: (nat, int) comp"
          and a = 7 and wc = 0,
        THEN conjunct2, THEN conjunct2, THEN conjunct2, THEN conjunct2, THEN conjunct1]
    by (simp add: Reader_run_one_apply fn_Reader_apply try_except_def then_do_def returns_apply raises_apply)
next
  show "Reader_run (Reader_apply (Reader (\<lambda>e. returns (\<lambda>a. raises (Exception ''boom'') :: (nat, int) comp)))
         (Reader returns)) [7::int] 0 = (Inl (Exception ''boom''), 0)"
    using fallback_scope [where s = "Reader (\<lambda>e. returns (\<lambda>a. raises (Exception ''boom'') :: (nat, int) comp))"
          and x = "7::int" and w = 0 and h = "\<lambda>a. raises (Exception ''boom'') :: (nat, int) comp"
          and wa = 0 and other = "Reader returns" and e = "Exception ''boom''" and wb = 0,
        THEN conjunct2, THEN conjunct2, THEN conjunct2, THEN conjunct2, THEN conjunct2, THEN conjunct1]
    by (simp add: then_do_def returns_apply raises_apply)
next
  show "Reader_run (Reader_apply (Reader (\<lambda>e. returns (returns :: int \<Rightarrow> (nat, int) comp)))
         (Reader (\<lambda>e. raises TypeError))) [7::int] 0 = (Inl TypeError, 0)"
    using fallback_scope [where s = "Reader (\<lambda>e. returns (returns :: int \<Rightarrow> (nat, int) comp))" and x = "7::int"
          and w = 0 and h = "returns :: int \<Rightarrow> (nat, int) comp" and wa = 0
          and other = "Reader (\<lambda>e. raises TypeError)" and wb = 0 and wc = 0,
        THEN conjunct2, THEN conjunct2, THEN conjunct2, THEN conjunct2, THEN conjunct2, THEN conjunct2]
    by (simp add: returns_apply raises_apply)
qed

section \<open>How often a run invokes the wrapped function\<close>

lemma count_bind:
  "fst (snd (Reader_run (Reader_bind (Reader (counted g))
       (\<lambda>v. uncounted (then_do (k v) (\<lambda>m. returns (uncounted_Reader m))))) [x] (n, w))) = Suc n"
  by (auto simp: Reader_run_one_apply Reader_bind_def then_do_def counted_apply uncounted_apply
      uncounted_Reader_def returns_apply split: prod.splits sum.splits)

lemma count_local:
  "fst (snd (Reader_run (MonadReader_local (Reader (counted g)) (\<lambda>e. uncounted (func e))) [d] (n, w)))
     = (case fst (func d w) of Inl _ \<Rightarrow> n | Inr _ \<Rightarrow> Suc n)"
  by (auto simp: Reader_run_one_apply MonadReader_local_def then_do_def counted_apply uncounted_apply
      returns_apply split: prod.splits sum.splits)

lemma count_map:
  "fst (snd (Reader_run (Reader_map (Reader (counted g)) (\<lambda>v. uncounted (f v))) [x] (n, w)))
     = (if fst (then_do (g x) f w) = Inl TypeError then Suc (Suc n) else Suc n)"
  by (auto simp: Reader_run_one_apply Reader_map_def try_except_def then_do_def counted_apply
      uncounted_apply returns_apply is_TypeError_iff split: prod.splits sum.splits)

lemma count_apply_self:
  "fst (snd (Reader_run (Reader_apply
        (Reader (counted (\<lambda>x. then_do (s x) (\<lambda>h. returns (\<lambda>a. uncounted (h a))))))
        (Reader (\<lambda>x. uncounted (g x)))) [x] (n, w))) = Suc n"
  by (auto simp: Reader_run_one_apply Reader_apply_def Let_def try_except_def then_do_def counted_apply
      uncounted_apply returns_apply is_TypeError_iff split: prod.splits sum.splits)

lemma count_apply_other:
  "fst (snd (Reader_run (Reader_apply
        (Reader (\<lambda>x. uncounted (then_do (s x) (\<lambda>h. returns (\<lambda>a. uncounted (h a))))))
        (Reader (counted g))) [x] (n, w)))
     = (case s x w of (Inl _, _) \<Rightarrow> n
        | (Inr h, wa) \<Rightarrow> if fst (then_do (g x) h wa) = Inl TypeError then Suc (Suc n) else Suc n)"
  by (auto simp: Reader_run_one_apply Reader_apply_def Let_def try_except_def then_do_def counted_apply
      uncounted_apply returns_apply is_TypeError_iff split: prod.splits sum.splits)

text \<open>
  C3, as the spec states it, fails on the fallback path: \<^verbatim>\<open>Reader(lambda x: x)\<close> mapped
  with a function whose application raises \<^verbatim>\<open>TypeError\<close>; one \<^verbatim>\<open>run(7)\<close> invokes the
  wrapped function twice, once in the \<^verbatim>\<open>try\<close> body and once in the handler.
\<close>

theorem map_invokes_twice_counterexample:
  "fst (snd (Reader_run (Reader_map (Reader (counted returns)) (\<lambda>v. raises TypeError)) [7::int] (0, ()))) = 2"
  by (simp add: Reader_run_one_apply Reader_map_def try_except_def then_do_def counted_apply
      returns_apply raises_apply)

text \<open>
  C3, amended. In one \<^verbatim>\<open>run(x)\<close>: a Reader built by \<^verbatim>\<open>bind\<close> invokes the wrapped
  function of the Reader it was built from exactly once; one built by \<^verbatim>\<open>local\<close> once,
  or not at all when the environment transformer raises; one built by \<^verbatim>\<open>map\<close> once
  when the \<^verbatim>\<open>try\<close> body raises no \<^verbatim>\<open>TypeError\<close> and twice when it does; one built
  by \<^verbatim>\<open>apply\<close> invokes \<^verbatim>\<open>self\<close>'s wrapped function exactly once, and the other
  Reader's wrapped function not at all when \<^verbatim>\<open>self\<close>'s raises, once when the
  \<^verbatim>\<open>try\<close> body raises no \<^verbatim>\<open>TypeError\<close> and twice when it does.
\<close>

theorem invocations_per_run:
  "fst (snd (Reader_run (Reader_bind (Reader (counted gb))
       (\<lambda>v. uncounted (then_do (kb v) (\<lambda>m. returns (uncounted_Reader m))))) [xb] (n, w))) = Suc n
   \<and> fst (snd (Reader_run (MonadReader_local (Reader (counted gl)) (\<lambda>e. uncounted (func e))) [d] (n, w)))
       = (case fst (func d w) of Inl _ \<Rightarrow> n | Inr _ \<Rightarrow> Suc n)
   \<and> fst (snd (Reader_run (Reader_map (Reader (counted gm)) (\<lambda>v. uncounted (f v))) [xm] (n, w)))
       = (if fst (then_do (gm xm) f w) = Inl TypeError then Suc (Suc n) else Suc n)
   \<and> fst (snd (Reader_run (Reader_apply
          (Reader (counted (\<lambda>x. then_do (sa x) (\<lambda>h. returns (\<lambda>a. uncounted (h a))))))
          (Reader (\<lambda>x. uncounted (ga x)))) [xa] (n, w))) = Suc n
   \<and> fst (snd (Reader_run (Reader_apply
          (Reader (\<lambda>x. uncounted (then_do (so x) (\<lambda>h. returns (\<lambda>a. uncounted (h a))))))
          (Reader (counted go))) [xo] (n, w)))
       = (case so xo w of (Inl _, _) \<Rightarrow> n
          | (Inr h, wa) \<Rightarrow> if fst (then_do (go xo) h wa) = Inl TypeError then Suc (Suc n) else Suc n)"
  by (simp only: count_bind count_local count_map count_apply_self count_apply_other simp_thms)

section \<open>Equality by probing\<close>

lemma Reader_eq_self_raises:
  "fn self 42 w = (Inl x, wb) \<Longrightarrow> is_Exception x
     \<Longrightarrow> Reader_eq eqv self other w = (Inr False, wb)"
  by (simp add: Reader_eq_def Let_def try_except_def then_do_def returns_apply)



text \<open>
  The choice of the method, on a plain Reader compared with a MonadReader. The world is
  the list of the calls made, latest first; the left side logs 1 and the right side logs
  2. The right side is probed first.
\<close>

lemma Reader_eq_operator_probes_right_first:
  "Reader_eq_operator (\<lambda>a b. returns (a = b)) True
      (Reader (\<lambda>e w. (Inr e, (1::nat) # w))) (Reader (\<lambda>e w. (Inr e, 2 # w))) []
     = (Inr True, [1, 2])"
  by (simp add: Reader_eq_operator_def Reader_eq_def Let_def try_except_def then_do_def
      returns_apply)




text \<open>
  C10. Reader equality is not reflexive: some Reader \<open>m\<close> has \<^verbatim>\<open>m == m\<close> evaluate to
  \<^verbatim>\<open>False\<close>, and so does every \<open>m\<close> whose wrapped function raises an exception (an
  instance of \<^verbatim>\<open>Exception\<close>) when applied to 42, whatever Python's \<^verbatim>\<open>==\<close> does on
  results. In \<^verbatim>\<open>m == m\<close> both operands have the same class, so the expression is
  \<^verbatim>\<open>m.__eq__(m)\<close>.
\<close>

theorem Reader_eq_not_reflexive:
  "(\<exists>m :: (unit, int, int) Reader. Reader_eq eqv m m () = (Inr False, ()))
   \<and> (fn m 42 w = (Inl x, w') \<and> is_Exception x \<longrightarrow> Reader_eq eqn m m w = (Inr False, w'))
   \<and> Reader_eq_operator eqo False n n = Reader_eq eqo n n"
proof (intro conjI)
  have "Reader_eq eqv (Reader (\<lambda>e. raises TypeError) :: (unit, int, int) Reader)
          (Reader (\<lambda>e. raises TypeError)) () = (Inr False, ())"
    by (rule Reader_eq_self_raises [where x = TypeError]) (simp_all add: raises_apply)
  then show "\<exists>m :: (unit, int, int) Reader. Reader_eq eqv m m () = (Inr False, ())" ..
next
  show "fn m 42 w = (Inl x, w') \<and> is_Exception x \<longrightarrow> Reader_eq eqn m m w = (Inr False, w')"
    by (auto simp: Reader_eq_self_raises)
next
  show "Reader_eq_operator eqo False n n = Reader_eq eqo n n"
    by (simp add: Reader_eq_operator_def)
qed

text \<open>A Reader whose wrapped function looks up a key that the probe 42 does not have.\<close>

theorem Reader_eq_not_reflexive_witness:
  "Reader_eq (\<lambda>a b. returns (a = b))
     (Reader (\<lambda>e. raises (Exception ''no key'')) :: (nat, int, int) Reader)
     (Reader (\<lambda>e. raises (Exception ''no key''))) 0 = (Inr False, 0)"
  using Reader_eq_not_reflexive [where m = "Reader (\<lambda>e. raises (Exception ''no key'')) :: (nat, int, int) Reader"
      and w = "0::nat" and x = "Exception ''no key''" and w' = 0
      and eqn = "\<lambda>a b. returns (a = b)", THEN conjunct2, THEN conjunct1]
  by (simp add: raises_apply)

end
